theory Spec2Isabelle
  imports Main
begin

section \<open>JavaScript strings\<close>

text \<open>
  A string is a list of code units; a \<^typ>\<open>char\<close> stands for a code unit in the range
  0..255.  On that range \<open>String.prototype.toLowerCase\<close> maps \<open>A..Z\<close> and the
  Latin-1 capitals \<open>0xC0..0xDE\<close> (without \<open>0xD7\<close>) to the code unit 32 above, and leaves
  every other code unit alone; \<open>String.prototype.trim\<close> strips the code units
  9, 10, 11, 12, 13, 32 and 160 from both ends.
\<close>

definition lowerChar :: "char \<Rightarrow> char" where
  "lowerChar c =
     (let n = (of_char c :: nat)
      in if (65 \<le> n \<and> n \<le> 90) \<or> (192 \<le> n \<and> n \<le> 222 \<and> n \<noteq> 215)
         then char_of (n + 32) else c)"

definition toLowerCase :: "string \<Rightarrow> string" where
  "toLowerCase s = map lowerChar s"

definition isWhiteSpace :: "char \<Rightarrow> bool" where
  "isWhiteSpace c = ((of_char c :: nat) \<in> {9, 10, 11, 12, 13, 32, 160})"

definition trim :: "string \<Rightarrow> string" where
  "trim s = rev (dropWhile isWhiteSpace (rev (dropWhile isWhiteSpace s)))"

definition endsWith :: "string \<Rightarrow> string \<Rightarrow> bool" where
  "endsWith s suf = (length suf \<le> length s \<and> drop (length s - length suf) s = suf)"

definition startsWith :: "string \<Rightarrow> string \<Rightarrow> bool" where
  "startsWith s pre = (take (length pre) s = pre)"

text \<open>\<open>s.split(c)\<close> for a one-character separator: never the empty array.\<close>

fun splitAt :: "char \<Rightarrow> string \<Rightarrow> string list" where
  "splitAt c [] = [[]]"
| "splitAt c (x # xs) =
     (if x = c then [] # splitAt c xs
      else (case splitAt c xs of [] \<Rightarrow> [[x]] | y # ys \<Rightarrow> (x # y) # ys))"

text \<open>\<open>Array.prototype.pop\<close>: the last element, \<open>undefined\<close> on the empty array.\<close>

definition pop :: "'a list \<Rightarrow> 'a option" where
  "pop xs = (if xs = [] then None else Some (last xs))"

text \<open>A value that may be \<open>undefined\<close>, inside a template literal or as a search string.\<close>

definition toString :: "string option \<Rightarrow> string" where
  "toString v = (case v of None \<Rightarrow> ''undefined'' | Some s \<Rightarrow> s)"

text \<open>Truthiness of a value that is \<open>undefined\<close> or a string.\<close>

definition truthy :: "string option \<Rightarrow> bool" where
  "truthy v = (case v of None \<Rightarrow> False | Some s \<Rightarrow> s \<noteq> [])"

section \<open>Data model\<close>

type_synonym bytes = "char list"

datatype status = Uploaded | Ready | Error

text \<open>
  The Metadata Record, as \<open>upload.js\<close> builds it and \<open>thumbnail.js\<close> extends it.
  A field that a loaded record may lack is an option.
\<close>

record metadata =
  id_of :: string
  name_of :: string
  modelUrl :: "string option"
  textureUrl :: "string option"
  modelType :: "string option"
  status :: status
  timestamp :: int
  thumbnailUrl :: "string option"

datatype blob = Raw bytes | Json metadata

text \<open>
  What a handler does to the outside, in order.  \<open>Put\<close> is a put that returned,
  \<open>PutFailed\<close> one that threw.
\<close>

datatype event =
    ReadFile string
  | LoadZip
  | ReadEntry string
  | Put string blob
  | PutFailed string blob
  | Fetch string
  | Del "string list"
  | Launch
  | CloseBrowser
  | ConsoleError string

text \<open>The Asset Store: under each key, the url the put returned and the data.\<close>

type_synonym blobs = "string \<rightharpoonup> string \<times> blob"

text \<open>
  What a run threads through: the store, the number of puts of the run, the number of ids
  \<open>crypto.randomUUID\<close> has handed out so far, and the trace of the run.
\<close>

record world =
  store :: blobs
  puts :: nat
  uuids :: nat
  trace :: "event list"

definition start :: "blobs \<Rightarrow> world" where
  "start st = \<lparr>store = st, puts = 0, uuids = 0, trace = []\<rparr>"


definition emit :: "event \<Rightarrow> world \<Rightarrow> world" where
  "emit ev w = w\<lparr>trace := trace w @ [ev]\<rparr>"

text \<open>
  \<open>put(key, data, ...)\<close> of the blob SDK.  The outcome of the \<open>n\<close>-th put of a run is
  given from outside (\<open>Inl\<close>: it throws with that message, \<open>Inr\<close>: it returns a blob with
  that url); a put that throws leaves the store as it was.
\<close>

definition put ::
  "(nat \<Rightarrow> string \<Rightarrow> string + string) \<Rightarrow> string \<Rightarrow> blob \<Rightarrow> world \<Rightarrow> (string + string) \<times> world" where
  "put outcome key data w =
     (case outcome (puts w) key of
        Inl err \<Rightarrow> (Inl err, w\<lparr>puts := Suc (puts w), trace := trace w @ [PutFailed key data]\<rparr>)
      | Inr url \<Rightarrow> (Inr url, w\<lparr>store := (store w)(key \<mapsto> (url, data)), puts := Suc (puts w),
                                trace := trace w @ [Put key data]\<rparr>))"

text \<open>
  The message literals of the three handlers, one constructor each, in the order of the
  source: \<open>upload.js\<close> lines 36, 49, 53, 86, 89, 137 and 142 (with \<open>error.message\<close>);
  \<open>thumbnail.js\<close> lines 28 and 128 (with \<open>error.message\<close>); the delete handler lines 19,
  49, 54, 94 and 99 (with \<open>error.message\<close>).  The 405 message is the same in all three.
  A thrown error is its message.
\<close>

datatype message =
    OnlyPost
  | MissingNameOrZip
  | OnlyZip
  | NoModelFile
  | NoTextureFile
  | UploadDone
  | InternalError string
  | MissingModelIdBody
  | RenderFailed string
  | MissingModelId
  | MetadataNotFound
  | MetadataLoadFailed
  | Deleted
  | DeleteFailed string

datatype body =
    Msg message
  | UploadOk string string message
  | ThumbOk string string string
  | ThumbError string message
  | DeleteOk string message

datatype response = Response nat body

fun status_code :: "response \<Rightarrow> nat" where
  "status_code (Response c b) = c"

section \<open>Ingest extractor (upload.js, lines 61-90)\<close>

text \<open>
  An entry as \<open>zip.forEach\<close> hands it to its callback, entries coming in the order of
  enumeration: its path, whether it is a directory, and what \<open>async('nodebuffer')\<close> gives
  for it (\<open>Inl\<close>: it throws).
\<close>

record zip_entry =
  relativePath :: string
  dir :: bool
  content :: "string + bytes"

record selection =
  modelFile :: "zip_entry option"
  textureFile :: "zip_entry option"
  modelExtension :: string

definition modelExtensions :: "string list" where
  "modelExtensions = [''.obj'', ''.gltf'', ''.glb'', ''.json'']"

text \<open>The two tests of the callback, on an entry's path.\<close>

definition recognizedTexture :: "string \<Rightarrow> bool" where
  "recognizedTexture path = endsWith (toLowerCase path) ''.png''"

definition recognizedModel :: "string \<Rightarrow> bool" where
  "recognizedModel path =
     truthy (List.find (\<lambda>e. endsWith (toLowerCase path) e) modelExtensions)"

definition noSelection :: selection where
  "noSelection = \<lparr>modelFile = None, textureFile = None, modelExtension = ''''\<rparr>"

text \<open>The callback of \<open>zip.forEach\<close>, on the variables it assigns.\<close>

definition scanEntry :: "selection \<Rightarrow> zip_entry \<Rightarrow> selection" where
  "scanEntry s zipEntry =
     (let fileName = toLowerCase (relativePath zipEntry);
          s1 = (if endsWith fileName ''.png'' \<and> \<not> dir zipEntry \<and> textureFile s = None
                then s\<lparr>textureFile := Some zipEntry\<rparr> else s);
          ext = List.find (\<lambda>e. endsWith fileName e) modelExtensions
      in if truthy ext \<and> \<not> dir zipEntry \<and> modelFile s1 = None
         then s1\<lparr>modelFile := Some zipEntry, modelExtension := toString ext\<rparr> else s1)"

definition selectFiles :: "zip_entry list \<Rightarrow> selection" where
  "selectFiles entries = foldl scanEntry noSelection entries"

section \<open>Upload handler (upload.js)\<close>

text \<open>
  An uploaded file as formidable reports it; \<open>originalFilename\<close> is a string, or
  \<open>null\<close> for a part that names no file.
\<close>

record uploaded_file =
  originalFilename :: "string option"
  filepath :: string

text \<open>
  What \<open>parseForm(req)\<close> resolves to: formidable gives every field and every file as an
  array, and the handler reads \<open>fields.modelName\<close> and \<open>files.file\<close>.
\<close>

record form =
  fields_modelName :: "string list option"
  files_file :: "uploaded_file list option"

record request =
  req_method :: string
  origin :: "string option"

record upload_request = request +
  parseForm :: "string + form"

text \<open>
  The collaborators of a run.  A call that can throw has an outcome \<open>Inl message\<close>.
  A \<open>fetch\<close> of a metadata url rejects (\<open>FetchThrows\<close>), answers with \<open>ok\<close> false
  (\<open>FetchNotOk\<close>), or answers with \<open>ok\<close> true and a body whose \<open>json()\<close> throws or
  gives a record.  \<open>randomUUID n\<close> is what the call of \<open>crypto.randomUUID\<close> gives after
  \<open>n\<close> earlier calls.  \<open>dispatch\<close> is how the promise of the un-awaited \<open>fetch\<close> to
  \<open>/api/thumbnail\<close> settles.
\<close>

datatype fetch_result = FetchThrows string | FetchNotOk | FetchOk "string + metadata"

record blob_env =
  putOutcome :: "nat \<Rightarrow> string \<Rightarrow> string + string"
  fetchOutcome :: "string \<Rightarrow> fetch_result"
  delOutcome :: "string list \<Rightarrow> string + unit"

record upload_env = blob_env +
  readFileSync :: "string \<Rightarrow> string + bytes"
  loadAsync :: "bytes \<Rightarrow> string + zip_entry list"
  randomUUID :: "nat \<Rightarrow> string"
  now :: int
  dispatch :: "string + unit"

text \<open>\<open>fields.modelName?.[0]?.trim()\<close> and \<open>files.file?.[0]\<close>.\<close>

definition modelNameOf :: "form \<Rightarrow> string option" where
  "modelNameOf f =
     (case fields_modelName f of None \<Rightarrow> None
      | Some xs \<Rightarrow> (case xs of [] \<Rightarrow> None | x # _ \<Rightarrow> Some (trim x)))"

definition zipFileOf :: "form \<Rightarrow> uploaded_file option" where
  "zipFileOf f =
     (case files_file f of None \<Rightarrow> None
      | Some fs \<Rightarrow> (case fs of [] \<Rightarrow> None | z # _ \<Rightarrow> Some z))"

text \<open>
  The messages of the TypeErrors that line 52 can throw: \<open>split\<close> read from \<open>null\<close>, and
  \<open>toLowerCase\<close> read from \<open>undefined\<close>.
\<close>

definition splitOfNull :: string where
  "splitOfNull = ''Cannot read properties of null (reading split)''"

definition toLowerCaseOfUndefined :: string where
  "toLowerCaseOfUndefined = ''Cannot read properties of undefined (reading toLowerCase)''"

text \<open>
  \<open>zipFile.originalFilename.split('.').pop().toLowerCase() !== 'zip'\<close>; \<open>Inl\<close> is a
  TypeError thrown on the way.
\<close>

definition notZip :: "uploaded_file \<Rightarrow> string + bool" where
  "notZip zipFile =
     (case originalFilename zipFile of
        None \<Rightarrow> Inl splitOfNull
      | Some fileName \<Rightarrow>
          (case pop (splitAt CHR ''.'' fileName) of
             None \<Rightarrow> Inl toLowerCaseOfUndefined
           | Some seg \<Rightarrow> Inr (toLowerCase seg \<noteq> ''zip'')))"

text \<open>Lines 93-138: the three puts, the dispatch and the answer.\<close>

definition storeModel ::
  "('a upload_env_scheme) \<Rightarrow> ('b upload_request_scheme) \<Rightarrow> string \<Rightarrow> zip_entry \<Rightarrow> zip_entry
     \<Rightarrow> string \<Rightarrow> world \<Rightarrow> (string + response) \<times> world" where
  "storeModel env req modelName mf tf ext w =
     (let modelId = randomUUID env (uuids w);
          wa = emit (ReadEntry (relativePath mf)) (w\<lparr>uuids := Suc (uuids w)\<rparr>)
      in case content mf of
           Inl e \<Rightarrow> (Inl e, wa)
         | Inr modelBuffer \<Rightarrow>
             (case put (putOutcome env) (''models/'' @ modelId @ ''/model'' @ ext)
                       (Raw modelBuffer) wa of
                (Inl e, w1) \<Rightarrow> (Inl e, w1)
              | (Inr modelBlobUrl, w1) \<Rightarrow>
                  (let wb = emit (ReadEntry (relativePath tf)) w1
                   in case content tf of
                        Inl e \<Rightarrow> (Inl e, wb)
                      | Inr textureBuffer \<Rightarrow>
                          (case put (putOutcome env) (''models/'' @ modelId @ ''/texture.png'')
                                    (Raw textureBuffer) wb of
                             (Inl e, w2) \<Rightarrow> (Inl e, w2)
                           | (Inr textureBlobUrl, w2) \<Rightarrow>
                               (let newModelMetadata =
                                      \<lparr>id_of = modelId, name_of = modelName,
                                       modelUrl = Some modelBlobUrl,
                                       textureUrl = Some textureBlobUrl,
                                       modelType = Some (drop 1 ext),
                                       status = Uploaded, timestamp = now env,
                                       thumbnailUrl = None\<rparr>
                                in case put (putOutcome env)
                                            (''models/'' @ modelId @ ''/metadata.json'')
                                            (Json newModelMetadata) w2 of
                                     (Inl e, w3) \<Rightarrow> (Inl e, w3)
                                   | (Inr u, w3) \<Rightarrow>
                                       (let w4 = emit (Fetch (toString (origin req)
                                                               @ ''/api/thumbnail'')) w3;
                                            w5 = (case dispatch env of
                                                    Inl e \<Rightarrow> emit (ConsoleError e) w4
                                                  | Inr x \<Rightarrow> w4)
                                        in (Inr (Response 200
                                                  (UploadOk modelId modelName UploadDone)),
                                            w5)))))))"

text \<open>Lines 56-90: read, load, scan, and the two checks on what the scan found.\<close>

definition ingest ::
  "('a upload_env_scheme) \<Rightarrow> ('b upload_request_scheme) \<Rightarrow> string \<Rightarrow> uploaded_file
     \<Rightarrow> world \<Rightarrow> (string + response) \<times> world" where
  "ingest env req modelName zipFile w =
     (let wa = emit (ReadFile (filepath zipFile)) w
      in case readFileSync env (filepath zipFile) of
           Inl e \<Rightarrow> (Inl e, wa)
         | Inr zipData \<Rightarrow>
             (let wb = emit LoadZip wa
              in case loadAsync env zipData of
                   Inl e \<Rightarrow> (Inl e, wb)
                 | Inr entries \<Rightarrow>
                     (let sel = selectFiles entries
                      in case modelFile sel of
                           None \<Rightarrow> (Inr (Response 400 (Msg NoModelFile)), wb)
                         | Some mf \<Rightarrow>
                             (case textureFile sel of
                                None \<Rightarrow> (Inr (Response 400 (Msg NoTextureFile)), wb)
                              | Some tf \<Rightarrow>
                                  storeModel env req modelName mf tf (modelExtension sel) wb))))"

text \<open>The body of the \<open>try\<close>; \<open>Inl\<close> is an exception on its way to the \<open>catch\<close>.\<close>

definition uploadTry ::
  "('a upload_env_scheme) \<Rightarrow> ('b upload_request_scheme) \<Rightarrow> world
     \<Rightarrow> (string + response) \<times> world" where
  "uploadTry env req w =
     (case parseForm req of
        Inl e \<Rightarrow> (Inl e, w)
      | Inr f \<Rightarrow>
          (case zipFileOf f of
             None \<Rightarrow> (Inr (Response 400 (Msg MissingNameOrZip)), w)
           | Some zipFile \<Rightarrow>
               (if \<not> truthy (modelNameOf f) then (Inr (Response 400 (Msg MissingNameOrZip)), w)
                else case notZip zipFile of
                       Inl e \<Rightarrow> (Inl e, w)
                     | Inr True \<Rightarrow> (Inr (Response 400 (Msg OnlyZip)), w)
                     | Inr False \<Rightarrow> ingest env req (toString (modelNameOf f)) zipFile w)))"

text \<open>The handler, on the world it finds.\<close>

definition upload_run ::
  "('a upload_env_scheme) \<Rightarrow> ('b upload_request_scheme) \<Rightarrow> world \<Rightarrow> response \<times> world" where
  "upload_run env req w0 =
     (if req_method req \<noteq> ''POST'' then (Response 405 (Msg OnlyPost), w0)
      else case uploadTry env req w0 of
             (Inl e, w) \<Rightarrow> (Response 500 (Msg (InternalError e)), emit (ConsoleError e) w)
           | (Inr r, w) \<Rightarrow> (r, w))"

definition upload_handler ::
  "('a upload_env_scheme) \<Rightarrow> ('b upload_request_scheme) \<Rightarrow> blobs \<Rightarrow> response \<times> world" where
  "upload_handler env req st = upload_run env req (start st)"

section \<open>Render trigger (thumbnail.js)\<close>

record thumbnail_request = request +
  body_modelId :: "string option"

text \<open>
  \<open>launch\<close> is \<open>puppeteer.launch\<close>; \<open>render\<close> is lines 46-69 on the renderer url: new
  page, viewport, navigation, the wait for \<open>window.renderingFinished\<close> (60000 ms) and the
  screenshot, any of which may throw.
\<close>

record thumbnail_env = blob_env +
  launch :: "string + unit"
  render :: "string \<Rightarrow> string + bytes"

text \<open>
  The body of the \<open>try\<close>.  An exception carries what the variable \<open>metadata\<close> holds
  when it is thrown.
\<close>

definition thumbnailTry ::
  "('a thumbnail_env_scheme) \<Rightarrow> ('b thumbnail_request_scheme) \<Rightarrow> string \<Rightarrow> world
     \<Rightarrow> (string \<times> metadata option + response) \<times> world" where
  "thumbnailTry env req modelId w =
     (let w0 = emit Launch w
      in case launch env of
           Inl e \<Rightarrow> (Inl (e, None), w0)
         | Inr b \<Rightarrow>
             (let rendererUrl = toString (origin req) @ ''/render.html?id='' @ modelId
              in case render env rendererUrl of
                   Inl e \<Rightarrow> (Inl (e, None), w0)
                 | Inr screenshotBuffer \<Rightarrow>
                     (case put (putOutcome env) (''models/'' @ modelId @ ''/thumbnail.png'')
                               (Raw screenshotBuffer) w0 of
                        (Inl e, w1) \<Rightarrow> (Inl (e, None), w1)
                      | (Inr thumbnailBlobUrl, w1) \<Rightarrow>
                          (let metadataPath = ''models/'' @ modelId @ ''/metadata.json'';
                               oldMetadataUrl = toString (origin req) @ ''/'' @ metadataPath;
                               w2 = emit (Fetch oldMetadataUrl) w1
                           in case fetchOutcome env oldMetadataUrl of
                                FetchThrows e \<Rightarrow> (Inl (e, None), w2)
                              | FetchNotOk \<Rightarrow>
                                  (Inl (''Fehler beim Abrufen der alten Metadaten.'', None), w2)
                              | FetchOk j \<Rightarrow>
                                  (case j of
                                     Inl e \<Rightarrow> (Inl (e, None), w2)
                                   | Inr loaded \<Rightarrow>
                                       (let metadata = loaded\<lparr>status := Ready,
                                                     thumbnailUrl := Some thumbnailBlobUrl\<rparr>
                                        in case put (putOutcome env) metadataPath
                                                    (Json metadata) w2 of
                                             (Inl e, w3) \<Rightarrow> (Inl (e, Some metadata), w3)
                                           | (Inr u, w3) \<Rightarrow>
                                               (Inr (Response 200
                                                      (ThumbOk modelId ''success''
                                                         thumbnailBlobUrl)),
                                                w3)))))))"

text \<open>The \<open>catch\<close>, with its own inner \<open>try\<close> around the second put.\<close>

definition thumbnailCatch ::
  "('a thumbnail_env_scheme) \<Rightarrow> string \<Rightarrow> string \<Rightarrow> metadata option \<Rightarrow> world
     \<Rightarrow> response \<times> world" where
  "thumbnailCatch env modelId err metadata w =
     (let w0 = emit (ConsoleError err) w;
          w1 = (case metadata of
                  None \<Rightarrow> w0
                | Some m \<Rightarrow>
                    (case put (putOutcome env) (''models/'' @ modelId @ ''/metadata.json'')
                              (Json (m\<lparr>status := Error\<rparr>)) w0 of
                       (Inl updateError, w') \<Rightarrow> emit (ConsoleError updateError) w'
                     | (Inr u, w') \<Rightarrow> w'))
      in (Response 500 (ThumbError ''error'' (RenderFailed err)), w1))"

definition thumbnail_handler ::
  "('a thumbnail_env_scheme) \<Rightarrow> ('b thumbnail_request_scheme) \<Rightarrow> blobs \<Rightarrow> response \<times> world" where
  "thumbnail_handler env req st =
     (if req_method req \<noteq> ''POST'' then (Response 405 (Msg OnlyPost), start st)
      else if \<not> truthy (body_modelId req)
      then (Response 400 (Msg MissingModelIdBody), start st)
      else (let modelId = toString (body_modelId req);
                rw = (case thumbnailTry env req modelId (start st) of
                        (Inl (e, metadata), w) \<Rightarrow> thumbnailCatch env modelId e metadata w
                      | (Inr r, w) \<Rightarrow> (r, w))
            in (fst rw, case launch env of
                          Inl e \<Rightarrow> snd rw
                        | Inr b \<Rightarrow> emit CloseBrowser (snd rw))))"

section \<open>Cascade deleter (delete handler)\<close>

record delete_request = request +
  body_id :: "string option"

text \<open>\<open>s.replace(pat, rep)\<close> with a string pattern: the first occurrence only.\<close>

fun replaceFirst :: "string \<Rightarrow> string \<Rightarrow> string \<Rightarrow> string" where
  "replaceFirst pat rep [] = (if pat = [] then rep else [])"
| "replaceFirst pat rep (x # xs) =
     (if startsWith (x # xs) pat then rep @ drop (length pat) (x # xs)
      else x # replaceFirst pat rep xs)"

text \<open>
  The array \<open>urlsToDelete\<close> of lines 58-76.  The handler builds it and never reads it.
\<close>

definition urlsToDelete ::
  "('b delete_request_scheme) \<Rightarrow> string \<Rightarrow> metadata \<Rightarrow> string list" where
  "urlsToDelete req modelId modelMetadata =
     (let metadataUrl = toString (origin req) @ ''/models/'' @ modelId @ ''/metadata.json''
      in map toString
           (filter (\<lambda>url. truthy url \<and> \<not> startsWith (toString url) (toString (origin req)))
              [modelUrl modelMetadata,
               textureUrl modelMetadata,
               (if truthy (thumbnailUrl modelMetadata) then thumbnailUrl modelMetadata else None),
               Some (replaceFirst (toString (origin req) @ ''/'')
                       ''https://pub-your-blob-store-id.r2.dev/'' metadataUrl),
               Some (''models/'' @ modelId @ ''/metadata.json''),
               Some (''models/'' @ modelId @ ''/texture.png''),
               Some (''models/'' @ modelId @ ''/model.'' @ toString (modelType modelMetadata)),
               Some (''models/'' @ modelId @ ''/thumbnail.png'')]))"

text \<open>The array handed to \<open>del\<close> (lines 83-88).\<close>

definition delKeys :: "string \<Rightarrow> metadata \<Rightarrow> string list" where
  "delKeys modelId modelMetadata =
     (let metadataPath = ''models/'' @ modelId @ ''/metadata.json''
      in map toString
           (filter truthy
              [modelUrl modelMetadata, textureUrl modelMetadata, thumbnailUrl modelMetadata,
               Some metadataPath]))"

text \<open>\<open>del\<close> takes urls and pathnames alike; a blob goes when either is listed.\<close>

definition removeBlobs :: "string list \<Rightarrow> blobs \<Rightarrow> blobs" where
  "removeBlobs ks st =
     (\<lambda>k. case st k of
             None \<Rightarrow> None
           | Some (url, data) \<Rightarrow> if k \<in> set ks \<or> url \<in> set ks then None else Some (url, data))"

definition delete_handler ::
  "('a blob_env_scheme) \<Rightarrow> ('b delete_request_scheme) \<Rightarrow> blobs \<Rightarrow> response \<times> world" where
  "delete_handler env req st =
     (if req_method req \<noteq> ''POST'' then (Response 405 (Msg OnlyPost), start st)
      else if \<not> truthy (body_id req) then (Response 400 (Msg MissingModelId), start st)
      else (let modelId = toString (body_id req);
                metadataUrl = toString (origin req) @ ''/models/'' @ modelId @ ''/metadata.json'';
                w0 = emit (Fetch metadataUrl) (start st)
            in case fetchOutcome env metadataUrl of
                 FetchThrows e \<Rightarrow> (Response 500 (Msg MetadataLoadFailed), emit (ConsoleError e) w0)
               | FetchNotOk \<Rightarrow> (Response 404 (Msg MetadataNotFound), w0)
               | FetchOk j \<Rightarrow>
                   (case j of
                      Inl e \<Rightarrow> (Response 500 (Msg MetadataLoadFailed), emit (ConsoleError e) w0)
                    | Inr modelMetadata \<Rightarrow>
                        (let keys = delKeys modelId modelMetadata;
                             w1 = emit (Del keys) w0
                         in case delOutcome env keys of
                              Inl e \<Rightarrow> (Response 500 (Msg (DeleteFailed e)),
                                        emit (ConsoleError e) w1)
                            | Inr u \<Rightarrow> (Response 200 (DeleteOk modelId Deleted),
                                        w1\<lparr>store := removeBlobs keys (store w1)\<rparr>)))))"

section \<open>Example requests and collaborators\<close>

text \<open>
  The scenario of an archive holding \<open>mesh.obj\<close> and \<open>skin.png\<close>, uploaded under the
  name Chair, with a store whose every put succeeds and a generator of ids \<open>a1\<close>,
  \<open>a11\<close>, ...; and an archive with a texture only.
\<close>

definition chairZip :: "zip_entry list" where
  "chairZip =
     [\<lparr>relativePath = ''textures/'', dir = True, content = Inr ''''\<rparr>,
      \<lparr>relativePath = ''mesh.obj'', dir = False, content = Inr ''v 0 0 0''\<rparr>,
      \<lparr>relativePath = ''textures/skin.png'', dir = False, content = Inr ''PNG''\<rparr>]"

definition textureOnlyZip :: "zip_entry list" where
  "textureOnlyZip =
     [\<lparr>relativePath = ''model.obj/'', dir = True, content = Inr ''''\<rparr>,
      \<lparr>relativePath = ''skin.png'', dir = False, content = Inr ''PNG''\<rparr>]"

definition okEnv :: upload_env where
  "okEnv =
     \<lparr>putOutcome = (\<lambda>n key. Inr (''https://blob.example/'' @ key)),
      fetchOutcome = (\<lambda>u. FetchNotOk),
      delOutcome = (\<lambda>ks. Inr ()),
      readFileSync = (\<lambda>p. Inr ''PK''),
      loadAsync = (\<lambda>d. Inr chairZip),
      randomUUID = (\<lambda>n. ''a'' @ replicate (Suc n) CHR ''1''),
      now = 1700000000000,
      dispatch = Inr ()\<rparr>"

definition uploadOf :: "string \<Rightarrow> string \<Rightarrow> upload_request" where
  "uploadOf modelName fileName =
     \<lparr>req_method = ''POST'', origin = Some ''https://site.example'',
      parseForm = Inr \<lparr>fields_modelName = Some [modelName],
                        files_file = Some [\<lparr>originalFilename = Some fileName,
                                            filepath = ''/tmp/upload_1''\<rparr>]\<rparr>\<rparr>"

text \<open>
  The record of that upload with a given status and thumbnail url, a store holding it, a
  render that succeeds on a site that serves the record \<open>m\<close> while the puts at the
  positions listed in \<open>failing\<close> throw, and the requests to render and to delete an id.
\<close>

definition chairRecord :: "status \<Rightarrow> string option \<Rightarrow> metadata" where
  "chairRecord s thumb =
     \<lparr>id_of = ''a1'', name_of = ''Chair'',
      modelUrl = Some ''https://blob.example/models/a1/model.obj'',
      textureUrl = Some ''https://blob.example/models/a1/texture.png'',
      modelType = Some ''obj'', status = s, timestamp = 1700000000000,
      thumbnailUrl = thumb\<rparr>"

definition storeWith :: "metadata \<Rightarrow> blobs" where
  "storeWith m =
     [''models/a1/metadata.json'' \<mapsto> (''https://blob.example/models/a1/metadata.json'', Json m)]"

definition renderEnv :: "metadata \<Rightarrow> nat list \<Rightarrow> thumbnail_env" where
  "renderEnv m failing =
     \<lparr>putOutcome = (\<lambda>n key. if n \<in> set failing then Inl ''store unavailable''
                               else Inr (''https://blob.example/'' @ key)),
      fetchOutcome = (\<lambda>u. if u = ''https://site.example/models/a1/metadata.json''
                            then FetchOk (Inr m) else FetchNotOk),
      delOutcome = (\<lambda>ks. Inr ()),
      launch = Inr (),
      render = (\<lambda>url. Inr ''PNG'')\<rparr>"

definition renderOf :: "string \<Rightarrow> thumbnail_request" where
  "renderOf modelId =
     \<lparr>req_method = ''POST'', origin = Some ''https://site.example'',
      body_modelId = Some modelId\<rparr>"

definition deleteOf :: "string \<Rightarrow> delete_request" where
  "deleteOf modelId =
     \<lparr>req_method = ''POST'', origin = Some ''https://site.example'',
      body_id = Some modelId\<rparr>"

section \<open>Strings: suffixes and the last segment of a split\<close>

lemma endsWith_iff: "endsWith s suf \<longleftrightarrow> (\<exists>p. s = p @ suf)"
proof
  assume "endsWith s suf"
  then have "s = take (length s - length suf) s @ suf"
    by (metis append_take_drop_id endsWith_def)
  then show "\<exists>p. s = p @ suf" ..
next
  assume "\<exists>p. s = p @ suf"
  then show "endsWith s suf" by (auto simp: endsWith_def)
qed

lemma splitAt_nonempty: "splitAt c s \<noteq> []"
  by (induction s) (auto split: list.splits)

lemma splitAt_without: "c \<notin> set s \<Longrightarrow> splitAt c s = [s]"
  by (induction s) auto

lemma splitAt_two: "c \<in> set s \<Longrightarrow> tl (splitAt c s) \<noteq> []"
  by (induction s) (auto simp: splitAt_nonempty split: list.splits)

lemma last_splitAt_after: "last (splitAt c (p @ c # q)) = last (splitAt c q)"
proof (induction p)
  case Nil
  show ?case by (simp add: splitAt_nonempty)
next
  case (Cons x p)
  show ?case
  proof (cases "x = c")
    case True
    with Cons show ?thesis by (simp add: splitAt_nonempty)
  next
    case False
    have "tl (splitAt c (p @ c # q)) \<noteq> []" by (rule splitAt_two) simp
    then obtain y z zs where "splitAt c (p @ c # q) = y # z # zs"
      by (cases "splitAt c (p @ c # q)") (auto simp: neq_Nil_conv)
    with False Cons show ?thesis by simp
  qed
qed

lemma last_splitAt_cases:
  "(c \<notin> set s \<and> last (splitAt c s) = s) \<or>
   (\<exists>p q. s = p @ c # q \<and> c \<notin> set q \<and> last (splitAt c s) = q)"
proof (cases "c \<in> set s")
  case False
  then show ?thesis by (simp add: splitAt_without)
next
  case True
  then obtain p q where "s = p @ c # q" "c \<notin> set q"
    by (meson split_list_last)
  then show ?thesis
    by (auto simp: last_splitAt_after splitAt_without)
qed

lemma lowerChar_dot: "lowerChar CHR ''.'' = CHR ''.''"
  by (simp add: lowerChar_def)

lemma lowerChar_eq_dot: "lowerChar c = CHR ''.'' \<Longrightarrow> c = CHR ''.''"
proof -
  assume a: "lowerChar c = CHR ''.''"
  show ?thesis
  proof (cases "(65 \<le> (of_char c :: nat) \<and> (of_char c :: nat) \<le> 90) \<or>
                (192 \<le> (of_char c :: nat) \<and> (of_char c :: nat) \<le> 222 \<and> (of_char c :: nat) \<noteq> 215)")
    case False
    with a show ?thesis by (simp add: lowerChar_def Let_def)
  next
    case True
    with a have "char_of ((of_char c :: nat) + 32) = CHR ''.''"
      by (simp add: lowerChar_def Let_def)
    then have "take_bit 8 ((of_char c :: nat) + 32) = 46"
      by (simp add: char_of_eq_iff)
    moreover from True have "(of_char c :: nat) + 32 < 256" by auto
    ultimately have "(of_char c :: nat) + 32 = 46"
      by (simp add: take_bit_nat_eq_self)
    with True show ?thesis by auto
  qed
qed

lemma dot_in_lower: "CHR ''.'' \<in> set (toLowerCase s) \<longleftrightarrow> CHR ''.'' \<in> set s"
proof
  assume "CHR ''.'' \<in> set (toLowerCase s)"
  then obtain x where "x \<in> set s" "lowerChar x = CHR ''.''"
    by (auto simp: toLowerCase_def)
  then show "CHR ''.'' \<in> set s" by (auto dest: lowerChar_eq_dot)
next
  assume "CHR ''.'' \<in> set s"
  then have "lowerChar CHR ''.'' \<in> set (toLowerCase s)"
    unfolding toLowerCase_def by (simp only: set_map) (rule imageI)
  then show "CHR ''.'' \<in> set (toLowerCase s)" by (simp add: lowerChar_dot)
qed

lemma extension_zip_iff:
  "toLowerCase (last (splitAt CHR ''.'' s)) = ''zip'' \<longleftrightarrow>
     endsWith (toLowerCase s) ''.zip'' \<or> toLowerCase s = ''zip''"
proof
  assume l: "toLowerCase (last (splitAt CHR ''.'' s)) = ''zip''"
  from last_splitAt_cases[of "CHR ''.''" s] show "endsWith (toLowerCase s) ''.zip'' \<or> toLowerCase s = ''zip''"
  proof
    assume "CHR ''.'' \<notin> set s \<and> last (splitAt CHR ''.'' s) = s"
    with l show ?thesis by simp
  next
    assume "\<exists>p q. s = p @ CHR ''.'' # q \<and> CHR ''.'' \<notin> set q \<and> last (splitAt CHR ''.'' s) = q"
    then obtain p q where s: "s = p @ CHR ''.'' # q" and q: "last (splitAt CHR ''.'' s) = q" by blast
    from l q have "toLowerCase q = ''zip''" by simp
    with s have "toLowerCase s = toLowerCase p @ ''.zip''"
      by (simp add: toLowerCase_def lowerChar_dot)
    then show ?thesis by (auto simp: endsWith_iff)
  qed
next
  assume "endsWith (toLowerCase s) ''.zip'' \<or> toLowerCase s = ''zip''"
  then show "toLowerCase (last (splitAt CHR ''.'' s)) = ''zip''"
  proof
    assume z: "toLowerCase s = ''zip''"
    have "CHR ''.'' \<notin> set (toLowerCase s)" by (simp add: z)
    then have "CHR ''.'' \<notin> set s" by (simp add: dot_in_lower)
    then show ?thesis using z by (simp add: splitAt_without)
  next
    assume "endsWith (toLowerCase s) ''.zip''"
    then obtain p where "toLowerCase s = p @ ''.zip''" by (auto simp: endsWith_iff)
    then obtain a b where s: "s = a @ b" and b: "toLowerCase b = ''.zip''"
      unfolding toLowerCase_def by (metis map_eq_append_conv)
    from b obtain d q where bq: "b = d # q" and d: "lowerChar d = CHR ''.''" and q: "toLowerCase q = ''zip''"
      unfolding toLowerCase_def by (auto simp: map_eq_Cons_conv)
    from d have d': "d = CHR ''.''" by (rule lowerChar_eq_dot)
    have "CHR ''.'' \<notin> set (toLowerCase q)" by (simp add: q)
    then have "CHR ''.'' \<notin> set q" by (simp add: dot_in_lower)
    then have "last (splitAt CHR ''.'' s) = q"
      using s bq d' by (simp add: last_splitAt_after splitAt_without)
    with q show ?thesis by simp
  qed
qed

section \<open>The scan is a search for the first match\<close>

lemma scanEntry_texture:
  "textureFile (scanEntry s e) =
     (if textureFile s = None \<and> \<not> dir e \<and> recognizedTexture (relativePath e)
      then Some e else textureFile s)"
  by (simp add: scanEntry_def recognizedTexture_def Let_def)

lemma scanEntry_model:
  "modelFile (scanEntry s e) =
     (if modelFile s = None \<and> \<not> dir e \<and> recognizedModel (relativePath e)
      then Some e else modelFile s)"
  by (simp add: scanEntry_def recognizedModel_def Let_def)

lemma scanEntry_extension:
  "modelExtension (scanEntry s e) =
     (if modelFile s = None \<and> \<not> dir e \<and> recognizedModel (relativePath e)
      then toString (List.find (\<lambda>x. endsWith (toLowerCase (relativePath e)) x) modelExtensions)
      else modelExtension s)"
  by (auto simp: scanEntry_def recognizedModel_def Let_def)

lemma foldl_texture:
  "textureFile (foldl scanEntry s es) =
     (case textureFile s of
        Some t \<Rightarrow> Some t
      | None \<Rightarrow> List.find (\<lambda>e. \<not> dir e \<and> recognizedTexture (relativePath e)) es)"
  by (induction es arbitrary: s) (auto simp: scanEntry_texture split: option.splits)

lemma foldl_model:
  "modelFile (foldl scanEntry s es) =
     (case modelFile s of
        Some t \<Rightarrow> Some t
      | None \<Rightarrow> List.find (\<lambda>e. \<not> dir e \<and> recognizedModel (relativePath e)) es)"
  by (induction es arbitrary: s) (auto simp: scanEntry_model split: option.splits)

lemma foldl_extension:
  "modelExtension (foldl scanEntry s es) =
     (case modelFile s of
        Some t \<Rightarrow> modelExtension s
      | None \<Rightarrow>
          (case List.find (\<lambda>e. \<not> dir e \<and> recognizedModel (relativePath e)) es of
             None \<Rightarrow> modelExtension s
           | Some e \<Rightarrow> toString (List.find (\<lambda>x. endsWith (toLowerCase (relativePath e)) x)
                                   modelExtensions)))"
  by (induction es arbitrary: s)
     (auto simp: scanEntry_model scanEntry_extension split: option.splits)

lemma selectFiles_model:
  "modelFile (selectFiles es) = List.find (\<lambda>e. \<not> dir e \<and> recognizedModel (relativePath e)) es"
  by (simp add: selectFiles_def foldl_model noSelection_def)

lemma selectFiles_texture:
  "textureFile (selectFiles es) =
     List.find (\<lambda>e. \<not> dir e \<and> recognizedTexture (relativePath e)) es"
  by (simp add: selectFiles_def foldl_texture noSelection_def)

lemma selectFiles_extension:
  "modelExtension (selectFiles es) =
     (case List.find (\<lambda>e. \<not> dir e \<and> recognizedModel (relativePath e)) es of
        None \<Rightarrow> ''''
      | Some e \<Rightarrow> toString (List.find (\<lambda>x. endsWith (toLowerCase (relativePath e)) x)
                              modelExtensions))"
  by (simp add: selectFiles_def foldl_extension noSelection_def split: option.splits)

lemma find_map_content:
  "List.find (\<lambda>e. P (dir e) (relativePath e)) (map (\<lambda>e. e\<lparr>content := f e\<rparr>) es) =
     map_option (\<lambda>e. e\<lparr>content := f e\<rparr>) (List.find (\<lambda>e. P (dir e) (relativePath e)) es)"
  by (induction es) auto

lemma selectFiles_content:
  "selectFiles (map (\<lambda>e. e\<lparr>content := f e\<rparr>) es) =
     \<lparr>modelFile = map_option (\<lambda>e. e\<lparr>content := f e\<rparr>) (modelFile (selectFiles es)),
      textureFile = map_option (\<lambda>e. e\<lparr>content := f e\<rparr>) (textureFile (selectFiles es)),
      modelExtension = modelExtension (selectFiles es)\<rparr>"
proof -
  let ?g = "\<lambda>e. e\<lparr>content := f e\<rparr>"
  have m: "modelFile (selectFiles (map ?g es)) = map_option ?g (modelFile (selectFiles es))"
    unfolding selectFiles_model
    by (rule find_map_content[where P = "\<lambda>d p. \<not> d \<and> recognizedModel p"])
  have t: "textureFile (selectFiles (map ?g es)) = map_option ?g (textureFile (selectFiles es))"
    unfolding selectFiles_texture
    by (rule find_map_content[where P = "\<lambda>d p. \<not> d \<and> recognizedTexture p"])
  have x: "modelExtension (selectFiles (map ?g es)) = modelExtension (selectFiles es)"
    unfolding selectFiles_extension
    by (simp add: find_map_content[where P = "\<lambda>d p. \<not> d \<and> recognizedModel p"]
             split: option.splits)
  show ?thesis
    by (rule selection.equality) (simp_all add: m t x)
qed

lemma notZip_eq:
  "originalFilename z = Some fileName \<Longrightarrow>
     notZip z = Inr (toLowerCase (last (splitAt CHR ''.'' fileName)) \<noteq> ''zip'')"
  by (simp add: notZip_def pop_def splitAt_nonempty)

lemma notZip_null: "originalFilename z = None \<Longrightarrow> notZip z = Inl splitOfNull"
  by (simp add: notZip_def)

lemma uploadTry_null_filename:
  "parseForm req = Inr f \<Longrightarrow> zipFileOf f = Some z \<Longrightarrow> truthy (modelNameOf f) \<Longrightarrow>
     originalFilename z = None \<Longrightarrow> uploadTry env req w = (Inl splitOfNull, w)"
  by (simp add: uploadTry_def notZip_null)


lemma uploadTry_no_name:
  "parseForm req = Inr f \<Longrightarrow> \<not> truthy (modelNameOf f) \<Longrightarrow>
     uploadTry env req w = (Inr (Response 400 (Msg MissingNameOrZip)), w)"
  by (simp add: uploadTry_def split: option.splits)

lemma uploadTry_not_zip:
  "parseForm req = Inr f \<Longrightarrow> zipFileOf f = Some z \<Longrightarrow> truthy (modelNameOf f) \<Longrightarrow>
     notZip z = Inr True \<Longrightarrow> uploadTry env req w = (Inr (Response 400 (Msg OnlyZip)), w)"
  by (simp add: uploadTry_def)

lemma uploadTry_ingest:
  "parseForm req = Inr f \<Longrightarrow> zipFileOf f = Some z \<Longrightarrow> truthy (modelNameOf f) \<Longrightarrow>
     notZip z = Inr False \<Longrightarrow>
     uploadTry env req w = ingest env req (toString (modelNameOf f)) z w"
  by (simp add: uploadTry_def)

lemma upload_nameless_file:
  assumes "req_method req = ''POST''" and "parseForm req = Inr f" and "zipFileOf f = Some z"
    and "truthy (modelNameOf f)" and "originalFilename z = None"
  shows "upload_handler env req st =
           (Response 500 (Msg (InternalError splitOfNull)),
            emit (ConsoleError splitOfNull) (start st))"
  using assms(1)
  by (simp add: upload_handler_def upload_run_def uploadTry_null_filename[OF assms(2-5)])

lemma ingest_lacking:
  "readFileSync env (filepath z) = Inr zipData \<Longrightarrow> loadAsync env zipData = Inr es \<Longrightarrow>
   modelFile (selectFiles es) = None \<or> textureFile (selectFiles es) = None \<Longrightarrow>
     ingest env req n z w =
       (Inr (Response 400 (Msg (if modelFile (selectFiles es) = None then NoModelFile
                                else NoTextureFile))),
        emit LoadZip (emit (ReadFile (filepath z)) w))"
  by (auto simp: ingest_def Let_def split: option.splits)

lemma ingest_bad_archive:
  "readFileSync env (filepath z) = Inr zipData \<Longrightarrow> loadAsync env zipData = Inl e \<Longrightarrow>
     ingest env req n z w = (Inl e, emit LoadZip (emit (ReadFile (filepath z)) w))"
  by (simp add: ingest_def Let_def)

section \<open>Stages of the upload handler\<close>


lemma storeModel_dispatch:
  "fst (storeModel (env\<lparr>dispatch := d\<rparr>) req n mf tf ext w) = fst (storeModel env req n mf tf ext w)"
  "store (snd (storeModel (env\<lparr>dispatch := d\<rparr>) req n mf tf ext w)) =
     store (snd (storeModel env req n mf tf ext w))"
  by (simp_all add: storeModel_def put_def emit_def Let_def split: sum.splits)

lemma storeModel_json_put:
  "Put k (Json m) \<in> set (trace (snd (storeModel env req n mf tf ext w))) \<Longrightarrow>
   Put k (Json m) \<notin> set (trace w) \<Longrightarrow>
     fst (storeModel env req n mf tf ext w) =
       Inr (Response 200 (UploadOk (id_of m) (name_of m) UploadDone))"
  by (auto simp: storeModel_def put_def emit_def Let_def split: sum.splits)

lemma ingest_dispatch:
  "fst (ingest (env\<lparr>dispatch := d\<rparr>) req n z w) = fst (ingest env req n z w)"
  "store (snd (ingest (env\<lparr>dispatch := d\<rparr>) req n z w)) = store (snd (ingest env req n z w))"
  by (simp_all add: ingest_def emit_def Let_def storeModel_dispatch split: sum.splits option.splits)

lemma ingest_json_put:
  "Put k (Json m) \<in> set (trace (snd (ingest env req n z w))) \<Longrightarrow>
   Put k (Json m) \<notin> set (trace w) \<Longrightarrow>
     fst (ingest env req n z w) =
       Inr (Response 200 (UploadOk (id_of m) (name_of m) UploadDone))"
  by (auto simp: ingest_def emit_def Let_def split: sum.splits option.splits
           intro!: storeModel_json_put)

lemma uploadTry_dispatch:
  "fst (uploadTry (env\<lparr>dispatch := d\<rparr>) req w) = fst (uploadTry env req w)"
  "store (snd (uploadTry (env\<lparr>dispatch := d\<rparr>) req w)) = store (snd (uploadTry env req w))"
  by (simp_all add: uploadTry_def ingest_dispatch split: sum.splits option.splits bool.splits)

lemma uploadTry_json_put:
  "Put k (Json m) \<in> set (trace (snd (uploadTry env req w))) \<Longrightarrow>
   Put k (Json m) \<notin> set (trace w) \<Longrightarrow>
     fst (uploadTry env req w) =
       Inr (Response 200 (UploadOk (id_of m) (name_of m) UploadDone))"
  by (auto simp: uploadTry_def split: sum.splits option.splits bool.splits if_splits
           intro!: ingest_json_put)




section \<open>What the handlers store\<close>

lemma thumbnail_json_puts:
  assumes "Put k (Json m) \<in> set (trace (snd (thumbnail_handler env req st)))"
  shows "(status m = Ready \<or> status m = Error)
         \<and> (\<exists>u. thumbnailUrl m = Some u
                \<and> putOutcome env 0 (''models/'' @ toString (body_modelId req) @ ''/thumbnail.png'')
                    = Inr u)
         \<and> k = ''models/'' @ toString (body_modelId req) @ ''/metadata.json''"
  using assms
  by (auto simp: thumbnail_handler_def thumbnailTry_def thumbnailCatch_def put_def emit_def
        start_def Let_def
      split: if_splits sum.splits fetch_result.splits prod.splits option.splits)

lemma upload_run_json_puts:
  assumes "Put k (Json m) \<in> set (trace (snd (upload_run env req w)))"
    and "Put k (Json m) \<notin> set (trace w)"
  shows "status m = Uploaded \<and> thumbnailUrl m = None
         \<and> k = ''models/'' @ randomUUID env (uuids w) @ ''/metadata.json''
         \<and> id_of m = randomUUID env (uuids w)"
  using assms
  by (auto simp: upload_run_def uploadTry_def ingest_def storeModel_def put_def emit_def Let_def
      split: if_splits sum.splits prod.splits option.splits bool.splits)

lemma upload_json_puts:
  assumes "Put k (Json m) \<in> set (trace (snd (upload_handler env req st)))"
  shows "status m = Uploaded \<and> thumbnailUrl m = None
         \<and> k = ''models/'' @ randomUUID env 0 @ ''/metadata.json'' \<and> id_of m = randomUUID env 0"
  using upload_run_json_puts[of k m env req "start st"] assms
  by (simp add: upload_handler_def start_def)


lemma thumbnail_loaded_ready:
  assumes "req_method req = ''POST''" and "truthy (body_modelId req)"
    and "launch env = Inr b"
    and "render env (toString (origin req) @ ''/render.html?id='' @ toString (body_modelId req))
           = Inr shot"
    and "putOutcome env 0 (''models/'' @ toString (body_modelId req) @ ''/thumbnail.png'') = Inr tu"
    and "fetchOutcome env (toString (origin req) @ ''/models/'' @ toString (body_modelId req)
                             @ ''/metadata.json'') = FetchOk (Inr loaded)"
    and "putOutcome env 1 (''models/'' @ toString (body_modelId req) @ ''/metadata.json'') = Inr xu"
  shows "fst (thumbnail_handler env req st) =
           Response 200 (ThumbOk (toString (body_modelId req)) ''success'' tu)"
    and "store (snd (thumbnail_handler env req st))
           (''models/'' @ toString (body_modelId req) @ ''/metadata.json'') =
         Some (xu, Json (loaded\<lparr>status := Ready, thumbnailUrl := Some tu\<rparr>))"
  using assms
  by (simp_all add: thumbnail_handler_def thumbnailTry_def put_def emit_def start_def Let_def)

lemma thumbnail_loaded_error:
  assumes "req_method req = ''POST''" and "truthy (body_modelId req)"
    and "launch env = Inr b"
    and "render env (toString (origin req) @ ''/render.html?id='' @ toString (body_modelId req))
           = Inr shot"
    and "putOutcome env 0 (''models/'' @ toString (body_modelId req) @ ''/thumbnail.png'') = Inr tu"
    and "fetchOutcome env (toString (origin req) @ ''/models/'' @ toString (body_modelId req)
                             @ ''/metadata.json'') = FetchOk (Inr loaded)"
    and "putOutcome env 1 (''models/'' @ toString (body_modelId req) @ ''/metadata.json'') = Inl e"
    and "putOutcome env 2 (''models/'' @ toString (body_modelId req) @ ''/metadata.json'') = Inr xu"
  shows "fst (thumbnail_handler env req st) =
           Response 500 (ThumbError ''error'' (RenderFailed e))"
    and "store (snd (thumbnail_handler env req st))
           (''models/'' @ toString (body_modelId req) @ ''/metadata.json'') =
         Some (xu, Json (loaded\<lparr>status := Error, thumbnailUrl := Some tu\<rparr>))"
  using assms
  by (simp_all add: thumbnail_handler_def thumbnailTry_def thumbnailCatch_def put_def emit_def
        start_def Let_def numeral_2_eq_2)

section \<open>Claims\<close>

text \<open>
  C10.  The model extensions are exactly \<open>.obj\<close>, \<open>.gltf\<close>, \<open>.glb\<close> and \<open>.json\<close>, the
  texture extension is \<open>.png\<close>, and the test is made on the lowercased entry path: a file
  entry is taken as the model (as the texture) by a scan that has found none yet exactly when
  its lowercased path ends in one of the four (in \<open>.png\<close>); \<open>MODEL.OBJ\<close> is taken as a
  model with extension \<open>.obj\<close>, and \<open>Skin.PNG\<close> as a texture.
\<close>

theorem C10_extension_sets:
  "modelExtensions = [''.obj'', ''.gltf'', ''.glb'', ''.json'']
   \<and> (modelFile (scanEntry noSelection (e\<lparr>dir := False\<rparr>)) = Some (e\<lparr>dir := False\<rparr>)) =
       (endsWith (toLowerCase (relativePath e)) ''.obj''
        \<or> endsWith (toLowerCase (relativePath e)) ''.gltf''
        \<or> endsWith (toLowerCase (relativePath e)) ''.glb''
        \<or> endsWith (toLowerCase (relativePath e)) ''.json'')
   \<and> (textureFile (scanEntry noSelection (e\<lparr>dir := False\<rparr>)) = Some (e\<lparr>dir := False\<rparr>)) =
       endsWith (toLowerCase (relativePath e)) ''.png''
   \<and> modelFile (scanEntry noSelection \<lparr>relativePath = ''MODEL.OBJ'', dir = False, content = c\<rparr>)
       = Some \<lparr>relativePath = ''MODEL.OBJ'', dir = False, content = c\<rparr>
   \<and> modelExtension (scanEntry noSelection \<lparr>relativePath = ''MODEL.OBJ'', dir = False, content = c\<rparr>)
       = ''.obj''
   \<and> textureFile (scanEntry noSelection \<lparr>relativePath = ''Skin.PNG'', dir = False, content = c\<rparr>)
       = Some \<lparr>relativePath = ''Skin.PNG'', dir = False, content = c\<rparr>"
proof -
  have m: "recognizedModel p =
       (endsWith (toLowerCase p) ''.obj'' \<or> endsWith (toLowerCase p) ''.gltf''
        \<or> endsWith (toLowerCase p) ''.glb'' \<or> endsWith (toLowerCase p) ''.json'')" for p
    by (auto simp: recognizedModel_def modelExtensions_def truthy_def
             split: option.splits if_splits)
  have a: "(modelFile (scanEntry noSelection (e\<lparr>dir := False\<rparr>)) = Some (e\<lparr>dir := False\<rparr>)) =
       (endsWith (toLowerCase (relativePath e)) ''.obj''
        \<or> endsWith (toLowerCase (relativePath e)) ''.gltf''
        \<or> endsWith (toLowerCase (relativePath e)) ''.glb''
        \<or> endsWith (toLowerCase (relativePath e)) ''.json'')"
    by (simp add: scanEntry_model noSelection_def m)
  have b: "(textureFile (scanEntry noSelection (e\<lparr>dir := False\<rparr>)) = Some (e\<lparr>dir := False\<rparr>)) =
       endsWith (toLowerCase (relativePath e)) ''.png''"
    by (simp add: scanEntry_texture noSelection_def recognizedTexture_def)
  have lo: "toLowerCase ''MODEL.OBJ'' = ''model.obj''" "toLowerCase ''Skin.PNG'' = ''skin.png''"
    by (simp_all add: toLowerCase_def lowerChar_def char_of_eq_iff)
  have c1: "modelFile (scanEntry noSelection \<lparr>relativePath = ''MODEL.OBJ'', dir = False, content = c\<rparr>)
       = Some \<lparr>relativePath = ''MODEL.OBJ'', dir = False, content = c\<rparr>"
    by (simp add: scanEntry_model noSelection_def m lo endsWith_def)
  have c2: "modelExtension (scanEntry noSelection \<lparr>relativePath = ''MODEL.OBJ'', dir = False, content = c\<rparr>)
       = ''.obj''"
    by (simp add: scanEntry_extension noSelection_def m lo endsWith_def modelExtensions_def toString_def)
  have c3: "textureFile (scanEntry noSelection \<lparr>relativePath = ''Skin.PNG'', dir = False, content = c\<rparr>)
       = Some \<lparr>relativePath = ''Skin.PNG'', dir = False, content = c\<rparr>"
    by (simp add: scanEntry_texture noSelection_def recognizedTexture_def lo endsWith_def)
  show ?thesis
    using a b c1 c2 c3 by (simp only: modelExtensions_def simp_thms)
qed

text \<open>
  C5.  The scan selects as the model the first entry in enumeration order that is not a
  directory and whose path is recognized as a model, and as the texture the first that is not
  a directory and whose path is recognized as a texture; replacing the contents of all entries
  changes nothing but the contents of the selected ones; and when either search finds
  nothing, an upload that gets as far as the scan is answered with 400.
\<close>

theorem C5_first_match:
  "modelFile (selectFiles es) = List.find (\<lambda>e. \<not> dir e \<and> recognizedModel (relativePath e)) es
   \<and> textureFile (selectFiles es) =
       List.find (\<lambda>e. \<not> dir e \<and> recognizedTexture (relativePath e)) es
   \<and> selectFiles (map (\<lambda>e. e\<lparr>content := f e\<rparr>) es) =
       \<lparr>modelFile = map_option (\<lambda>e. e\<lparr>content := f e\<rparr>) (modelFile (selectFiles es)),
        textureFile = map_option (\<lambda>e. e\<lparr>content := f e\<rparr>) (textureFile (selectFiles es)),
        modelExtension = modelExtension (selectFiles es)\<rparr>
   \<and> (req_method req = ''POST'' \<and> parseForm req = Inr fm \<and> zipFileOf fm = Some z
        \<and> truthy (modelNameOf fm) \<and> notZip z = Inr False
        \<and> readFileSync env (filepath z) = Inr zipData \<and> loadAsync env zipData = Inr es
        \<and> (List.find (\<lambda>e. \<not> dir e \<and> recognizedModel (relativePath e)) es = None
            \<or> List.find (\<lambda>e. \<not> dir e \<and> recognizedTexture (relativePath e)) es = None)
      \<longrightarrow> fst (upload_handler env req st) =
            Response 400 (Msg (if List.find (\<lambda>e. \<not> dir e \<and> recognizedModel (relativePath e)) es
                                  = None
                               then NoModelFile else NoTextureFile)))"
proof -
  have fail: "fst (upload_handler env req st) =
            Response 400 (Msg (if List.find (\<lambda>e. \<not> dir e \<and> recognizedModel (relativePath e)) es
                                  = None
                               then NoModelFile else NoTextureFile))"
    if "req_method req = ''POST''" "parseForm req = Inr fm" "zipFileOf fm = Some z"
       "truthy (modelNameOf fm)" "notZip z = Inr False"
       "readFileSync env (filepath z) = Inr zipData" "loadAsync env zipData = Inr es"
       "List.find (\<lambda>e. \<not> dir e \<and> recognizedModel (relativePath e)) es = None
            \<or> List.find (\<lambda>e. \<not> dir e \<and> recognizedTexture (relativePath e)) es = None"
  proof -
    from that(8) have l: "modelFile (selectFiles es) = None \<or> textureFile (selectFiles es) = None"
      by (simp add: selectFiles_model selectFiles_texture)
    show ?thesis
      using that(1)
      by (simp add: upload_handler_def upload_run_def uploadTry_ingest[OF that(2) that(3) that(4) that(5)]
                    ingest_lacking[OF that(6) that(7) l] selectFiles_model)
  qed
  show ?thesis
    using fail by (simp only: selectFiles_model selectFiles_texture selectFiles_content) blast
qed

theorem C5_first_match_witness:
  "fst (upload_handler (okEnv\<lparr>loadAsync := \<lambda>d. Inr textureOnlyZip\<rparr>)
          (uploadOf ''Chair'' ''chair.zip'') Map.empty) = Response 400 (Msg NoModelFile)
   \<and> textureFile (selectFiles textureOnlyZip) =
       Some \<lparr>relativePath = ''skin.png'', dir = False, content = Inr ''PNG''\<rparr>"
  using C5_first_match [of textureOnlyZip "\<lambda>e. Inr []" "uploadOf ''Chair'' ''chair.zip''"
      "\<lparr>fields_modelName = Some [''Chair''],
        files_file = Some [\<lparr>originalFilename = Some ''chair.zip'', filepath = ''/tmp/upload_1''\<rparr>]\<rparr>"
      "\<lparr>originalFilename = Some ''chair.zip'', filepath = ''/tmp/upload_1''\<rparr>"
      "okEnv\<lparr>loadAsync := \<lambda>d. Inr textureOnlyZip\<rparr>" "''PK''" Map.empty]
  by (simp add: modelNameOf_def zipFileOf_def notZip_def pop_def truthy_def toString_def trim_def
        isWhiteSpace_def toLowerCase_def lowerChar_def endsWith_def modelExtensions_def
        recognizedModel_def recognizedTexture_def char_of_eq_iff okEnv_def uploadOf_def
        textureOnlyZip_def)



text \<open>
  C9 (amended).  A POST whose form parses and carries a file that reports an original
  filename which, in lower case, neither ends in \<open>.zip\<close> nor is the bare name \<open>zip\<close>,
  is answered with 400 before anything is read: the trace is empty and the store untouched.
  (The handler compares the last dot-separated segment of the filename with \<open>zip\<close>.)
\<close>

theorem C9_rejects_other_extensions:
  assumes post: "req_method req = ''POST''" and parse: "parseForm req = Inr fm"
    and zfile: "zipFileOf fm = Some z"
    and named: "originalFilename z = Some fileName"
    and suffix: "\<not> endsWith (toLowerCase fileName) ''.zip''"
    and bare: "toLowerCase fileName \<noteq> ''zip''"
  shows "fst (upload_handler env req st) =
           Response 400 (Msg (if truthy (modelNameOf fm) then OnlyZip else MissingNameOrZip))
         \<and> trace (snd (upload_handler env req st)) = []
         \<and> store (snd (upload_handler env req st)) = st"
proof (cases "truthy (modelNameOf fm)")
  case False
  then show ?thesis
    using post
    by (simp add: upload_handler_def upload_run_def uploadTry_no_name[OF parse] start_def)
next
  case name: True
  from suffix bare have "toLowerCase (last (splitAt CHR ''.'' fileName)) \<noteq> ''zip''"
    by (simp add: extension_zip_iff)
  then have "notZip z = Inr True" by (simp add: notZip_eq[OF named])
  then show ?thesis
    using post name
    by (simp add: upload_handler_def upload_run_def uploadTry_not_zip[OF parse zfile name]
          start_def)
qed

theorem C9_rejects_other_extensions_witness:
  "fst (upload_handler okEnv (uploadOf ''Chair'' ''chair.rar'') Map.empty) =
     Response 400 (Msg OnlyZip)
   \<and> trace (snd (upload_handler okEnv (uploadOf ''Chair'' ''chair.rar'') Map.empty)) = []"
  using C9_rejects_other_extensions [of "uploadOf ''Chair'' ''chair.rar''"
      "\<lparr>fields_modelName = Some [''Chair''],
        files_file = Some [\<lparr>originalFilename = Some ''chair.rar'', filepath = ''/tmp/upload_1''\<rparr>]\<rparr>"
      "\<lparr>originalFilename = Some ''chair.rar'', filepath = ''/tmp/upload_1''\<rparr>"
      "''chair.rar''" okEnv Map.empty]
  by (simp add: zipFileOf_def modelNameOf_def truthy_def trim_def isWhiteSpace_def
        toLowerCase_def lowerChar_def endsWith_def char_of_eq_iff uploadOf_def)

text \<open>
  C9, as stated, fails for the filename \<open>zip\<close>: it does not end in \<open>.zip\<close>, and the
  handler reads the file and answers 200.
\<close>

theorem C9_bare_zip_counterexample:
  "\<not> endsWith (toLowerCase ''zip'') ''.zip''
   \<and> fst (upload_handler okEnv (uploadOf ''Chair'' ''zip'') Map.empty) =
       Response 200 (UploadOk ''a1'' ''Chair'' UploadDone)
   \<and> ReadFile ''/tmp/upload_1'' \<in> set (trace (snd (upload_handler okEnv (uploadOf ''Chair'' ''zip'') Map.empty)))"
  by (simp add: upload_handler_def upload_run_def uploadTry_def ingest_def storeModel_def put_def emit_def
        start_def modelNameOf_def zipFileOf_def notZip_def pop_def truthy_def toString_def
        trim_def isWhiteSpace_def toLowerCase_def lowerChar_def endsWith_def selectFiles_def
        scanEntry_def noSelection_def modelExtensions_def char_of_eq_iff Let_def okEnv_def
        uploadOf_def chairZip_def)

text \<open>
  C1 (amended).  For a POST with a non-empty trimmed name and a file whose filename passes
  the zip check, when the payload is not a well-formed archive (\<open>JSZip.loadAsync\<close> throws),
  the exception reaches the handler's catch-all: the answer is 500 with the parser's
  message, and nothing is written to the store.
\<close>

theorem C1_bad_archive_is_500:
  assumes post: "req_method req = ''POST''" and parse: "parseForm req = Inr fm"
    and zfile: "zipFileOf fm = Some z" and name: "truthy (modelNameOf fm)"
    and zip: "notZip z = Inr False"
    and read: "readFileSync env (filepath z) = Inr zipData"
    and bad: "loadAsync env zipData = Inl e"
  shows "fst (upload_handler env req st) = Response 500 (Msg (InternalError e))
         \<and> store (snd (upload_handler env req st)) = st
         \<and> puts (snd (upload_handler env req st)) = 0"
  using post
  by (simp add: upload_handler_def upload_run_def uploadTry_ingest[OF parse zfile name zip]
        ingest_bad_archive[OF read bad] start_def emit_def)

theorem C1_bad_archive_is_500_witness:
  "fst (upload_handler (okEnv\<lparr>loadAsync := \<lambda>d. Inl ''Corrupted zip''\<rparr>)
          (uploadOf ''Chair'' ''chair.zip'') Map.empty) =
     Response 500 (Msg (InternalError ''Corrupted zip''))"
  using C1_bad_archive_is_500 [of "uploadOf ''Chair'' ''chair.zip''"
      "\<lparr>fields_modelName = Some [''Chair''],
        files_file = Some [\<lparr>originalFilename = Some ''chair.zip'', filepath = ''/tmp/upload_1''\<rparr>]\<rparr>"
      "\<lparr>originalFilename = Some ''chair.zip'', filepath = ''/tmp/upload_1''\<rparr>"
      "okEnv\<lparr>loadAsync := \<lambda>d. Inl ''Corrupted zip''\<rparr>" "''PK''" "''Corrupted zip''" Map.empty]
  by (simp add: zipFileOf_def modelNameOf_def notZip_def pop_def truthy_def trim_def
        isWhiteSpace_def toLowerCase_def lowerChar_def char_of_eq_iff okEnv_def uploadOf_def)

text \<open>
  C1, as stated, fails: with the name Chair, the filename \<open>chair.zip\<close> and a payload the
  archive library rejects, the status is 500, not 400.
\<close>

theorem C1_bad_archive_counterexample:
  "truthy (modelNameOf \<lparr>fields_modelName = Some [''Chair''],
        files_file = Some [\<lparr>originalFilename = Some ''chair.zip'', filepath = ''/tmp/upload_1''\<rparr>]\<rparr>)
   \<and> loadAsync (okEnv\<lparr>loadAsync := \<lambda>d. Inl ''Corrupted zip''\<rparr>) ''PK'' = Inl ''Corrupted zip''
   \<and> status_code (fst (upload_handler (okEnv\<lparr>loadAsync := \<lambda>d. Inl ''Corrupted zip''\<rparr>)
                          (uploadOf ''Chair'' ''chair.zip'') Map.empty)) = 500"
  by (simp add: upload_handler_def upload_run_def uploadTry_def ingest_def emit_def
        start_def modelNameOf_def zipFileOf_def notZip_def pop_def truthy_def toString_def
        trim_def isWhiteSpace_def toLowerCase_def lowerChar_def char_of_eq_iff Let_def okEnv_def
        uploadOf_def)




text \<open>
  C8.  Once the metadata put has succeeded (the trace of the run holds that put), the answer
  is 200 with the id and name of the stored record and the message, however the dispatch to
  the render trigger settles; the store is the same as well.
\<close>

theorem C8_fire_and_forget:
  assumes stored: "Put k (Json m) \<in> set (trace (snd (upload_handler env req st)))"
  shows "fst (upload_handler (env\<lparr>dispatch := d\<rparr>) req st) =
           Response 200 (UploadOk (id_of m) (name_of m) UploadDone)
         \<and> store (snd (upload_handler (env\<lparr>dispatch := d\<rparr>) req st)) =
             store (snd (upload_handler env req st))"
proof -
  from stored have post: "req_method req = ''POST''"
    by (auto simp: upload_handler_def upload_run_def start_def split: if_splits)
  obtain res w where run: "uploadTry env req (start st) = (res, w)"
    by (cases "uploadTry env req (start st)")
  from stored post run have "Put k (Json m) \<in> set (trace w)"
    by (auto simp: upload_handler_def upload_run_def emit_def split: sum.splits)
  with run have "Put k (Json m) \<in> set (trace (snd (uploadTry env req (start st))))" by simp
  then have ok: "fst (uploadTry env req (start st)) =
       Inr (Response 200 (UploadOk (id_of m) (name_of m) UploadDone))"
    by (rule uploadTry_json_put) (simp add: start_def)
  obtain res' w' where run': "uploadTry (env\<lparr>dispatch := d\<rparr>) req (start st) = (res', w')"
    by (cases "uploadTry (env\<lparr>dispatch := d\<rparr>) req (start st)")
  from uploadTry_dispatch[where env=env and d=d and req=req and w="start st"] run run' ok
  have "res' = Inr (Response 200 (UploadOk (id_of m) (name_of m) UploadDone))"
    and "res = res'" and "store w' = store w"
    by simp_all
  with post run run' show ?thesis
    by (simp add: upload_handler_def upload_run_def emit_def)
qed

theorem C8_fire_and_forget_witness:
  "Put ''models/a1/metadata.json''
       (Json \<lparr>id_of = ''a1'', name_of = ''Chair'',
              modelUrl = Some ''https://blob.example/models/a1/model.obj'',
              textureUrl = Some ''https://blob.example/models/a1/texture.png'',
              modelType = Some ''obj'', status = Uploaded,
              timestamp = 1700000000000, thumbnailUrl = None\<rparr>)
     \<in> set (trace (snd (upload_handler okEnv (uploadOf ''Chair'' ''chair.zip'') Map.empty)))
   \<and> fst (upload_handler (okEnv\<lparr>dispatch := Inl ''ECONNREFUSED''\<rparr>)
            (uploadOf ''Chair'' ''chair.zip'') Map.empty) =
       Response 200 (UploadOk ''a1'' ''Chair'' UploadDone)
   \<and> fst (upload_handler (okEnv\<lparr>dispatch := Inr ()\<rparr>)
            (uploadOf ''Chair'' ''chair.zip'') Map.empty) =
       Response 200 (UploadOk ''a1'' ''Chair'' UploadDone)"
proof -
  have stored: "Put ''models/a1/metadata.json''
       (Json \<lparr>id_of = ''a1'', name_of = ''Chair'',
              modelUrl = Some ''https://blob.example/models/a1/model.obj'',
              textureUrl = Some ''https://blob.example/models/a1/texture.png'',
              modelType = Some ''obj'', status = Uploaded,
              timestamp = 1700000000000, thumbnailUrl = None\<rparr>)
     \<in> set (trace (snd (upload_handler okEnv (uploadOf ''Chair'' ''chair.zip'') Map.empty)))"
    by (simp add: upload_handler_def upload_run_def uploadTry_def ingest_def storeModel_def put_def emit_def
        start_def modelNameOf_def zipFileOf_def notZip_def pop_def truthy_def toString_def
        trim_def isWhiteSpace_def toLowerCase_def lowerChar_def endsWith_def selectFiles_def
        scanEntry_def noSelection_def modelExtensions_def char_of_eq_iff Let_def okEnv_def
        uploadOf_def chairZip_def)
  show ?thesis
    using stored C8_fire_and_forget [OF stored, of "Inl ''ECONNREFUSED''"]
      C8_fire_and_forget [OF stored, of "Inr ()"]
    by simp
qed




text \<open>
  C4 (amended).  The render trigger never reads the status of the record it loads.  Whatever
  that status is, a run whose metadata put succeeds stores the loaded record with status
  Ready and the new thumbnail url, and a run whose put of the Ready record throws while the
  put of the Error record succeeds stores it with status Error; the trigger stores no other
  status, and the upload handler stores only status Uploaded, under the key of the id it
  has generated.
\<close>

theorem C4_status_rewritten_on_every_run:
  assumes post: "req_method req = ''POST''" and given: "truthy (body_modelId req)"
    and launched: "launch env = Inr b"
    and rendered: "render env (toString (origin req) @ ''/render.html?id=''
                                 @ toString (body_modelId req)) = Inr shot"
    and put0: "putOutcome env 0 (''models/'' @ toString (body_modelId req) @ ''/thumbnail.png'')
                 = Inr tu"
    and load: "fetchOutcome env (toString (origin req) @ ''/models/'' @ toString (body_modelId req)
                                   @ ''/metadata.json'') = FetchOk (Inr loaded)"
  shows "(putOutcome env 1 (''models/'' @ toString (body_modelId req) @ ''/metadata.json'') = Inr xu
            \<longrightarrow> store (snd (thumbnail_handler env req st))
                  (''models/'' @ toString (body_modelId req) @ ''/metadata.json'') =
                  Some (xu, Json (loaded\<lparr>status := Ready, thumbnailUrl := Some tu\<rparr>)))
         \<and> (putOutcome env 1 (''models/'' @ toString (body_modelId req) @ ''/metadata.json'') = Inl e
            \<and> putOutcome env 2 (''models/'' @ toString (body_modelId req) @ ''/metadata.json'')
                = Inr xu
            \<longrightarrow> store (snd (thumbnail_handler env req st))
                  (''models/'' @ toString (body_modelId req) @ ''/metadata.json'') =
                  Some (xu, Json (loaded\<lparr>status := Error, thumbnailUrl := Some tu\<rparr>)))
         \<and> (Put k (Json m) \<in> set (trace (snd (thumbnail_handler env req st)))
            \<longrightarrow> status m = Ready \<or> status m = Error)
         \<and> (Put k (Json m) \<in> set (trace (snd (upload_handler uenv ureq ust)))
            \<longrightarrow> status m = Uploaded \<and> k = ''models/'' @ randomUUID uenv 0 @ ''/metadata.json'')"
  using thumbnail_loaded_ready(2)[OF post given launched rendered put0 load, of xu st]
    thumbnail_loaded_error(2)[OF post given launched rendered put0 load, of e xu st]
    thumbnail_json_puts[of k m env req st] upload_json_puts[of k m uenv ureq ust]
  by blast

theorem C4_status_rewritten_on_every_run_witness:
  "store (snd (thumbnail_handler
                 (renderEnv (chairRecord Error (Some ''https://blob.example/old.png'')) [])
                 (renderOf ''a1'')
                 (storeWith (chairRecord Error (Some ''https://blob.example/old.png'')))))
     ''models/a1/metadata.json'' =
     Some (''https://blob.example/models/a1/metadata.json'',
           Json (chairRecord Ready (Some ''https://blob.example/models/a1/thumbnail.png'')))
   \<and> store (snd (thumbnail_handler
                 (renderEnv (chairRecord Ready (Some ''https://blob.example/old.png'')) [1])
                 (renderOf ''a1'')
                 (storeWith (chairRecord Ready (Some ''https://blob.example/old.png'')))))
     ''models/a1/metadata.json'' =
     Some (''https://blob.example/models/a1/metadata.json'',
           Json (chairRecord Error (Some ''https://blob.example/models/a1/thumbnail.png'')))"
proof -
  let ?old = "Some ''https://blob.example/old.png''"
  let ?req = "renderOf ''a1''"
  let ?e1 = "renderEnv (chairRecord Error ?old) []"
  let ?e2 = "renderEnv (chairRecord Ready ?old) [1]"
  have post: "req_method ?req = ''POST''" and given: "truthy (body_modelId ?req)"
    by (simp_all add: renderOf_def truthy_def)
  have key: "''models/'' @ toString (body_modelId ?req) @ ''/metadata.json''
      = ''models/a1/metadata.json''"
    by (simp add: renderOf_def toString_def)
  have launched1: "launch ?e1 = Inr ()"
    and rendered1: "render ?e1 (toString (origin ?req) @ ''/render.html?id=''
                                 @ toString (body_modelId ?req)) = Inr ''PNG''"
    and put01: "putOutcome ?e1 0 (''models/'' @ toString (body_modelId ?req)
                 @ ''/thumbnail.png'') = Inr ''https://blob.example/models/a1/thumbnail.png''"
    and load1: "fetchOutcome ?e1 (toString (origin ?req) @ ''/models/''
                 @ toString (body_modelId ?req) @ ''/metadata.json'')
                 = FetchOk (Inr (chairRecord Error ?old))"
    and ok1: "putOutcome ?e1 1 ''models/a1/metadata.json''
                 = Inr ''https://blob.example/models/a1/metadata.json''"
    by (simp_all add: renderEnv_def renderOf_def toString_def)
  have launched2: "launch ?e2 = Inr ()"
    and rendered2: "render ?e2 (toString (origin ?req) @ ''/render.html?id=''
                                 @ toString (body_modelId ?req)) = Inr ''PNG''"
    and put02: "putOutcome ?e2 0 (''models/'' @ toString (body_modelId ?req)
                 @ ''/thumbnail.png'') = Inr ''https://blob.example/models/a1/thumbnail.png''"
    and load2: "fetchOutcome ?e2 (toString (origin ?req) @ ''/models/''
                 @ toString (body_modelId ?req) @ ''/metadata.json'')
                 = FetchOk (Inr (chairRecord Ready ?old))"
    and bad1: "putOutcome ?e2 1 ''models/a1/metadata.json'' = Inl ''store unavailable''"
    and ok2: "putOutcome ?e2 2 ''models/a1/metadata.json''
                 = Inr ''https://blob.example/models/a1/metadata.json''"
    by (simp_all add: renderEnv_def renderOf_def toString_def)
  have a: "store (snd (thumbnail_handler ?e1 ?req (storeWith (chairRecord Error ?old))))
     ''models/a1/metadata.json'' =
     Some (''https://blob.example/models/a1/metadata.json'',
           Json ((chairRecord Error ?old)\<lparr>status := Ready,
                   thumbnailUrl := Some ''https://blob.example/models/a1/thumbnail.png''\<rparr>))"
    using C4_status_rewritten_on_every_run [OF post given launched1 rendered1 put01 load1,
        THEN conjunct1, unfolded key, rule_format, OF ok1]
    by simp
  have b: "store (snd (thumbnail_handler ?e2 ?req (storeWith (chairRecord Ready ?old))))
     ''models/a1/metadata.json'' =
     Some (''https://blob.example/models/a1/metadata.json'',
           Json ((chairRecord Ready ?old)\<lparr>status := Error,
                   thumbnailUrl := Some ''https://blob.example/models/a1/thumbnail.png''\<rparr>))"
    using C4_status_rewritten_on_every_run [OF post given launched2 rendered2 put02 load2,
        THEN conjunct2, THEN conjunct1, unfolded key, rule_format, OF conjI, OF bad1 ok2]
    by simp
  from a b show ?thesis by (simp add: chairRecord_def)
qed

text \<open>
  C4, as stated, fails: the render trigger run on an asset whose stored record is Error
  replaces it with a Ready record.
\<close>

theorem C4_error_to_ready_counterexample:
  "storeWith (chairRecord Error (Some ''https://blob.example/models/a1/thumbnail.png''))
     ''models/a1/metadata.json'' =
     Some (''https://blob.example/models/a1/metadata.json'',
           Json (chairRecord Error (Some ''https://blob.example/models/a1/thumbnail.png'')))
   \<and> store (snd (thumbnail_handler
                   (renderEnv (chairRecord Error
                                 (Some ''https://blob.example/models/a1/thumbnail.png'')) [])
                   (renderOf ''a1'')
                   (storeWith (chairRecord Error
                                 (Some ''https://blob.example/models/a1/thumbnail.png'')))))
       ''models/a1/metadata.json'' =
     Some (''https://blob.example/models/a1/metadata.json'',
           Json (chairRecord Ready (Some ''https://blob.example/models/a1/thumbnail.png'')))
   \<and> chairRecord Ready (Some ''https://blob.example/models/a1/thumbnail.png'')
       \<noteq> chairRecord Error (Some ''https://blob.example/models/a1/thumbnail.png'')"
  by (simp add: thumbnail_handler_def thumbnailTry_def thumbnailCatch_def put_def emit_def
        start_def Let_def truthy_def toString_def renderEnv_def renderOf_def chairRecord_def
        storeWith_def)

text \<open>
  C2.  The delete handler on a record without thumbnail url hands to \<open>del\<close> the model
  url, the texture url and the metadata key, and no key of the naming convention in place of
  the missing field; the array \<open>urlsToDelete\<close>, which the handler builds and never uses,
  holds that key.  The same goes for a record without texture url.
\<close>

theorem C2_delete_submits_no_fallback_keys:
  "trace (snd (delete_handler (renderEnv (chairRecord Uploaded None) []) (deleteOf ''a1'')
                 (storeWith (chairRecord Uploaded None)))) =
     [Fetch ''https://site.example/models/a1/metadata.json'',
      Del [''https://blob.example/models/a1/model.obj'',
           ''https://blob.example/models/a1/texture.png'',
           ''models/a1/metadata.json'']]
   \<and> fst (delete_handler (renderEnv (chairRecord Uploaded None) []) (deleteOf ''a1'')
                 (storeWith (chairRecord Uploaded None))) = Response 200 (DeleteOk ''a1'' Deleted)
   \<and> ''models/a1/thumbnail.png'' \<in> set (urlsToDelete (deleteOf ''a1'') ''a1''
                                             (chairRecord Uploaded None))
   \<and> delKeys ''a1'' ((chairRecord Uploaded None)\<lparr>textureUrl := None\<rparr>) =
       [''https://blob.example/models/a1/model.obj'', ''models/a1/metadata.json'']
   \<and> ''models/a1/texture.png'' \<in> set (urlsToDelete (deleteOf ''a1'') ''a1''
                                           ((chairRecord Uploaded None)\<lparr>textureUrl := None\<rparr>))"
  by (simp add: delete_handler_def delKeys_def urlsToDelete_def startsWith_def emit_def start_def
        truthy_def toString_def Let_def renderEnv_def deleteOf_def chairRecord_def storeWith_def)

end
